theory Spec2Isabelle
  imports Complex_Main "HOL-Library.Sublist"
begin

section \<open>Python string primitives used by the bot\<close>

text \<open>
  Messages and stored fields are Python \<open>str\<close> values. They are modelled as
  \<open>string\<close> (a list of characters) holding ASCII text: \<open>str.lower\<close>,
  \<open>str.title\<close> and \<open>str.split\<close> are written out for the ASCII letters and the
  ASCII whitespace characters; every other character is left unchanged by the case
  mappings and is not a separator.
\<close>

definition upper_letters :: string where
  "upper_letters = ''ABCDEFGHIJKLMNOPQRSTUVWXYZ''"

definition lower_letters :: string where
  "lower_letters = ''abcdefghijklmnopqrstuvwxyz''"

definition is_upper :: "char \<Rightarrow> bool" where
  "is_upper c = (c \<in> set upper_letters)"

definition is_lower :: "char \<Rightarrow> bool" where
  "is_lower c = (c \<in> set lower_letters)"

definition to_lower :: "char \<Rightarrow> char" where
  "to_lower c = (case map_of (zip upper_letters lower_letters) c of Some d \<Rightarrow> d | None \<Rightarrow> c)"

definition to_upper :: "char \<Rightarrow> char" where
  "to_upper c = (case map_of (zip lower_letters upper_letters) c of Some d \<Rightarrow> d | None \<Rightarrow> c)"

text \<open>\<open>s.lower()\<close>\<close>

definition py_lower :: "string \<Rightarrow> string" where
  "py_lower s = map to_lower s"

text \<open>\<open>sub in s\<close> on strings: \<open>sub\<close> occurs in \<open>s\<close> as a contiguous run.\<close>

fun str_in :: "string \<Rightarrow> string \<Rightarrow> bool" where
  "str_in sub [] = (sub = [])"
| "str_in sub (c # cs) = (prefix sub (c # cs) \<or> str_in sub cs)"

text \<open>\<open>any(word in s for word in words)\<close>\<close>

definition any_in :: "string list \<Rightarrow> string \<Rightarrow> bool" where
  "any_in words s = list_ex (\<lambda>word. str_in word s) words"

text \<open>\<open>s.split()\<close>: the maximal runs of non-whitespace characters, in order.\<close>

definition is_space :: "char \<Rightarrow> bool" where
  "is_space c = (c \<in> set [CHR 0x09, CHR 0x0A, CHR 0x0B, CHR 0x0C, CHR 0x0D,
                             CHR 0x1C, CHR 0x1D, CHR 0x1E, CHR 0x1F, CHR 0x20])"

fun split_loop :: "string \<Rightarrow> string \<Rightarrow> string list" where
  "split_loop word [] = (if word = [] then [] else [word])"
| "split_loop word (c # cs) =
     (if is_space c then (if word = [] then split_loop [] cs else word # split_loop [] cs)
      else split_loop (word @ [c]) cs)"

definition py_split :: "string \<Rightarrow> string list" where
  "py_split s = split_loop [] s"

text \<open>\<open>s.title()\<close>: a letter that follows a letter is lower-cased, any other letter is
  upper-cased.\<close>

fun title_loop :: "bool \<Rightarrow> string \<Rightarrow> string" where
  "title_loop previous_is_cased [] = []"
| "title_loop previous_is_cased (c # cs) =
     (if is_lower c then (if previous_is_cased then c else to_upper c) # title_loop True cs
      else if is_upper c then (if previous_is_cased then to_lower c else c) # title_loop True cs
      else c # title_loop False cs)"

definition py_title :: "string \<Rightarrow> string" where
  "py_title s = title_loop False s"

text \<open>Truth value of an optional string: \<open>None\<close> and \<open>''\<close> are false.\<close>

definition truthy :: "string option \<Rightarrow> bool" where
  "truthy v = (case v of None \<Rightarrow> False | Some s \<Rightarrow> s \<noteq> [])"

text \<open>\<open>d.get(key, '')\<close> for a key holding a string.\<close>

definition get_str :: "string option \<Rightarrow> string" where
  "get_str v = (case v of None \<Rightarrow> [] | Some s \<Rightarrow> s)"

section \<open>Intent classifier\<close>

text \<open>
  An intent definition is a dictionary read with \<open>intent.get('patterns', [])\<close> and
  \<open>intent.get('name', 'unknown')\<close>: either key may be absent.
\<close>

record intent =
  intent_name :: "string option"
  patterns :: "string list option"

definition get_patterns :: "intent \<Rightarrow> string list" where
  "get_patterns i = (case patterns i of None \<Rightarrow> [] | Some ps \<Rightarrow> ps)"

definition get_intent_name :: "intent \<Rightarrow> string" where
  "get_intent_name i = (case intent_name i of None \<Rightarrow> ''unknown'' | Some n \<Rightarrow> n)"

text \<open>The inner loop of \<open>find_intent\<close>: does some pattern of the intent, lower-cased,
  occur in the lower-cased message?\<close>

fun pattern_loop :: "string list \<Rightarrow> string \<Rightarrow> bool" where
  "pattern_loop [] msg_lower = False"
| "pattern_loop (pattern # rest) msg_lower =
     (if str_in (py_lower pattern) msg_lower then True else pattern_loop rest msg_lower)"

text \<open>The fallback ladder of \<open>find_intent\<close> (the \<open>if\<close>/\<open>elif\<close> chain).\<close>

definition fallback_intent :: "string \<Rightarrow> string" where
  "fallback_intent msg_lower =
     (if any_in [''hi'', ''hello'', ''hey''] msg_lower then ''greeting''
      else if any_in [''recommend'', ''suggest''] msg_lower then ''recommendation''
      else if any_in [''price'', ''how much'', ''cost''] msg_lower then ''price_inquiry''
      else if any_in [''floral'', ''woody'', ''citrus'', ''fresh'', ''oriental''] msg_lower
        then ''category_query''
      else ''unknown'')"

text \<open>The outer loop: the first intent with a matching pattern returns its name.\<close>

fun intent_loop :: "intent list \<Rightarrow> string \<Rightarrow> string" where
  "intent_loop [] msg_lower = fallback_intent msg_lower"
| "intent_loop (i # rest) msg_lower =
     (if pattern_loop (get_patterns i) msg_lower then get_intent_name i
      else intent_loop rest msg_lower)"

definition find_intent :: "intent list \<Rightarrow> string \<Rightarrow> string" where
  "find_intent intents message = intent_loop intents (py_lower message)"

section \<open>FAQ matcher\<close>

record faq =
  question :: "string option"
  answer :: "string option"

text \<open>The test of one FAQ: one of the first three words of its lower-cased question
  occurs in the lower-cased user text.\<close>

definition faq_matches :: "faq \<Rightarrow> string \<Rightarrow> bool" where
  "faq_matches f question_lower =
     any_in (take 3 (py_split (py_lower (get_str (question f))))) question_lower"

text \<open>The loop returns \<open>faq.get('answer')\<close> of the first matching FAQ, which is
  \<open>None\<close> when that FAQ has no answer key.\<close>

fun faq_loop :: "faq list \<Rightarrow> string \<Rightarrow> string option" where
  "faq_loop [] question_lower = None"
| "faq_loop (f # rest) question_lower =
     (if faq_matches f question_lower then answer f else faq_loop rest question_lower)"

definition answer_faq :: "faq list \<Rightarrow> string \<Rightarrow> string option" where
  "answer_faq faqs qn = faq_loop faqs (py_lower qn)"

section \<open>Entity matcher\<close>

text \<open>
  A product is a dictionary. The fields are the keys the bot reads, each optional;
  \<open>other_keys\<close> lists any further keys of the dictionary (the sample data carries
  \<open>questions\<close> and \<open>answers\<close>), which only matter for its truth value.
\<close>

record perfume =
  perfume_id :: "int option"
  name :: "string option"
  price :: "rat option"
  category :: "string option"
  perfume_notes :: "string list option"
  description :: "string option"
  other_keys :: "string list"

fun name_loop :: "perfume list \<Rightarrow> string \<Rightarrow> perfume option" where
  "name_loop [] query_lower = None"
| "name_loop (p # rest) query_lower =
     (if str_in (py_lower (get_str (name p))) query_lower then Some p
      else name_loop rest query_lower)"

fun category_loop :: "perfume list \<Rightarrow> string \<Rightarrow> perfume option" where
  "category_loop [] query_lower = None"
| "category_loop (p # rest) query_lower =
     (if str_in (py_lower (get_str (category p))) query_lower then Some p
      else category_loop rest query_lower)"

definition get_notes :: "perfume \<Rightarrow> string list" where
  "get_notes p = (case perfume_notes p of None \<Rightarrow> [] | Some ns \<Rightarrow> ns)"

fun note_loop :: "string list \<Rightarrow> string \<Rightarrow> bool" where
  "note_loop [] query_lower = False"
| "note_loop (note # rest) query_lower =
     (if str_in (py_lower note) query_lower then True else note_loop rest query_lower)"

fun notes_loop :: "perfume list \<Rightarrow> string \<Rightarrow> perfume option" where
  "notes_loop [] query_lower = None"
| "notes_loop (p # rest) query_lower =
     (if note_loop (get_notes p) query_lower then Some p else notes_loop rest query_lower)"

definition find_perfume :: "perfume list \<Rightarrow> string \<Rightarrow> perfume option" where
  "find_perfume perfumes query =
     (let query_lower = py_lower query in
      case name_loop perfumes query_lower of
        Some p \<Rightarrow> Some p
      | None \<Rightarrow>
          (case category_loop perfumes query_lower of
             Some p \<Rightarrow> Some p
           | None \<Rightarrow> notes_loop perfumes query_lower))"

section \<open>Response generator\<close>

text \<open>Exceptions raised by the modelled code.\<close>

datatype py_error =
    FileNotFoundError | JSONDecodeError | OtherIOError
  | AttributeError | TypeError | KeyError

text \<open>
  The \<open>response\<close> entry of a reply is a string assembled with f-strings. It is kept
  here as the data the string is formatted from (the rendering of emoji and of floating
  point prices is not modelled): the FAQ answer; the product card (name, price, title-cased
  category when the key is present, the first three notes when the key is present and the
  list is non-empty, the description when present); the index of the canned greeting or
  fallback sentence; the recommendation lines (name, price, optional description); the price
  lines and the category lines (name, price).
\<close>

datatype reply_text =
    FaqText string
  | PerfumeCard string rat "string option" "string list option" "string option"
  | GreetingText nat
  | RecommendationText "(string \<times> rat \<times> string option) list"
  | PriceText "(string \<times> rat) list"
  | CategoryText string "(string \<times> rat) list"
  | FallbackText nat

text \<open>The dictionary returned by \<open>generate_response\<close>; the keys \<open>perfume\<close> and
  \<open>perfumes\<close> are present in one branch each.\<close>

record response =
  response_text :: reply_text
  rtype :: string
  confidence :: rat
  perfume_entry :: "perfume option"
  perfumes_entry :: "perfume list option"

text \<open>The state of a \<open>PerfumeAI\<close> object.\<close>

record perfume_ai =
  perfumes :: "perfume list"
  faqs :: "faq list"
  intents :: "intent list"

text \<open>\<open>if perfume:\<close> a dictionary is true when it has at least one key.\<close>

definition dict_truthy :: "perfume \<Rightarrow> bool" where
  "dict_truthy p =
     (perfume_id p \<noteq> None \<or> name p \<noteq> None \<or> price p \<noteq> None \<or> category p \<noteq> None
      \<or> perfume_notes p \<noteq> None \<or> description p \<noteq> None \<or> other_keys p \<noteq> [])"

text \<open>\<open>perfume['name']\<close> and \<open>perfume['price']\<close> raise \<open>KeyError\<close> on a missing key.\<close>

definition name_and_price :: "perfume \<Rightarrow> py_error + string \<times> rat" where
  "name_and_price p =
     (case name p of
        None \<Rightarrow> Inl KeyError
      | Some n \<Rightarrow> (case price p of None \<Rightarrow> Inl KeyError | Some pr \<Rightarrow> Inr (n, pr)))"

definition perfume_card :: "perfume \<Rightarrow> py_error + reply_text" where
  "perfume_card p =
     (case name_and_price p of
        Inl e \<Rightarrow> Inl e
      | Inr (n, pr) \<Rightarrow>
          Inr (PerfumeCard n pr
                 (map_option py_title (category p))
                 (case perfume_notes p of
                    None \<Rightarrow> None
                  | Some ns \<Rightarrow> if ns = [] then None else Some (take 3 ns))
                 (description p)))"

fun price_lines :: "perfume list \<Rightarrow> py_error + (string \<times> rat) list" where
  "price_lines [] = Inr []"
| "price_lines (p # rest) =
     (case name_and_price p of
        Inl e \<Rightarrow> Inl e
      | Inr line \<Rightarrow> (case price_lines rest of Inl e \<Rightarrow> Inl e | Inr ls \<Rightarrow> Inr (line # ls)))"

fun recommendation_lines :: "perfume list \<Rightarrow> py_error + (string \<times> rat \<times> string option) list" where
  "recommendation_lines [] = Inr []"
| "recommendation_lines (p # rest) =
     (case name_and_price p of
        Inl e \<Rightarrow> Inl e
      | Inr (n, pr) \<Rightarrow>
          (case recommendation_lines rest of
             Inl e \<Rightarrow> Inl e
           | Inr ls \<Rightarrow> Inr ((n, pr, description p) # ls)))"

text \<open>
  The random source is a parameter: the list of raw draws it hands out.
  \<open>random.choice\<close> takes a position of its argument; \<open>random.sample\<close> selects without
  replacement from a shrinking pool (the selected slot is refilled with the last pool
  element), so the sample has \<open>k\<close> entries from distinct positions.
\<close>

definition draw :: "nat list \<Rightarrow> nat \<Rightarrow> nat" where
  "draw rnd n = (case rnd of [] \<Rightarrow> 0 | d # _ \<Rightarrow> d mod n)"

fun random_sample :: "nat list \<Rightarrow> 'a list \<Rightarrow> nat \<Rightarrow> 'a list" where
  "random_sample rnd pool 0 = []"
| "random_sample rnd pool (Suc k) =
     (if pool = [] then []
      else let j = draw rnd (length pool)
           in pool ! j # random_sample (tl rnd) (butlast (pool[j := last pool])) k)"

definition categories :: "string list" where
  "categories = [''floral'', ''woody'', ''citrus'', ''fresh'', ''oriental'']"

definition fallback_response :: "nat list \<Rightarrow> response" where
  "fallback_response rnd =
     \<lparr>response_text = FallbackText (draw rnd 3), rtype = ''fallback'', confidence = 3 / 10,
      perfume_entry = None, perfumes_entry = None\<rparr>"

text \<open>Step 3 of \<open>generate_response\<close>: the branches on the intent; a branch that does not
  return falls through to the fallback of step 4.\<close>

definition intent_step :: "perfume_ai \<Rightarrow> nat list \<Rightarrow> string \<Rightarrow> py_error + response" where
  "intent_step ai rnd message =
     (let intent = find_intent (intents ai) message in
      if intent = ''greeting'' then
        Inr \<lparr>response_text = GreetingText (draw rnd 3), rtype = ''greeting'',
             confidence = 9 / 10, perfume_entry = None, perfumes_entry = None\<rparr>
      else if intent = ''recommendation'' then
        (if perfumes ai \<noteq> [] then
           (let recommended = random_sample rnd (perfumes ai) (min 3 (length (perfumes ai))) in
            case recommendation_lines recommended of
              Inl e \<Rightarrow> Inl e
            | Inr ls \<Rightarrow>
                Inr \<lparr>response_text = RecommendationText ls, rtype = ''recommendation'',
                     confidence = 8 / 10, perfume_entry = None,
                     perfumes_entry = Some recommended\<rparr>)
         else Inr (fallback_response rnd))
      else if intent = ''price_inquiry'' then
        (if perfumes ai \<noteq> [] then
           (case price_lines (take 5 (perfumes ai)) of
              Inl e \<Rightarrow> Inl e
            | Inr ls \<Rightarrow>
                Inr \<lparr>response_text = PriceText ls, rtype = ''price_info'',
                     confidence = 7 / 10, perfume_entry = None, perfumes_entry = None\<rparr>)
         else Inr (fallback_response rnd))
      else if intent = ''category_query'' then
        (case find (\<lambda>cat. str_in cat (py_lower message)) categories of
           None \<Rightarrow> Inr (fallback_response rnd)
         | Some mentioned_category \<Rightarrow>
             (let filtered = filter (\<lambda>p. category p = Some mentioned_category) (perfumes ai) in
              if filtered \<noteq> [] then
                (case price_lines filtered of
                   Inl e \<Rightarrow> Inl e
                 | Inr ls \<Rightarrow>
                     Inr \<lparr>response_text = CategoryText (py_title mentioned_category) ls,
                          rtype = ''category_info'', confidence = 8 / 10,
                          perfume_entry = None, perfumes_entry = None\<rparr>)
              else Inr (fallback_response rnd)))
      else Inr (fallback_response rnd))"

text \<open>Step 2: the entity matcher; a match that is a true dictionary returns the card.\<close>

definition entity_step :: "perfume_ai \<Rightarrow> nat list \<Rightarrow> string \<Rightarrow> py_error + response" where
  "entity_step ai rnd message =
     (case find_perfume (perfumes ai) message of
        None \<Rightarrow> intent_step ai rnd message
      | Some p \<Rightarrow>
          if dict_truthy p then
            (case perfume_card p of
               Inl e \<Rightarrow> Inl e
             | Inr txt \<Rightarrow>
                 Inr \<lparr>response_text = txt, rtype = ''perfume_info'', confidence = 8 / 10,
                      perfume_entry = Some p, perfumes_entry = None\<rparr>)
          else intent_step ai rnd message)"

text \<open>Step 1: the FAQ answer, when it is a non-empty string.\<close>

definition generate_response :: "perfume_ai \<Rightarrow> nat list \<Rightarrow> string \<Rightarrow> py_error + response" where
  "generate_response ai rnd message =
     (let faq_answer = answer_faq (faqs ai) message in
      if truthy faq_answer then
        Inr \<lparr>response_text = FaqText (get_str faq_answer), rtype = ''faq'', confidence = 9 / 10,
             perfume_entry = None, perfumes_entry = None\<rparr>
      else entity_step ai rnd message)"

section \<open>The categories endpoint\<close>

text \<open>The generator expression of \<open>get_categories\<close>, in catalog order: the category of
  every product whose category is a non-empty string.\<close>

definition category_values :: "perfume list \<Rightarrow> string list" where
  "category_values ps = map (\<lambda>p. get_str (category p)) (filter (\<lambda>p. truthy (category p)) ps)"

text \<open>\<open>list(set(...))\<close>: each member of the set once, in an order Python does not
  specify.\<close>

definition list_of_set :: "'a set \<Rightarrow> 'a list \<Rightarrow> bool" where
  "list_of_set S xs = (distinct xs \<and> set xs = S)"

text \<open>The list comprehension of the return statement.\<close>

definition titled :: "string list \<Rightarrow> string list" where
  "titled cs = map py_title (filter (\<lambda>c. c \<noteq> []) cs)"

text \<open>\<open>get_categories ps out\<close>: the endpoint may return \<open>out\<close> under the key
  \<open>categories\<close> for the catalog \<open>ps\<close>.\<close>

definition get_categories :: "perfume list \<Rightarrow> string list \<Rightarrow> bool" where
  "get_categories ps out =
     (\<exists>cs. list_of_set (set (category_values ps)) cs \<and> out = titled cs)"

section \<open>Catalog loading\<close>

text \<open>
  \<open>load_training_data\<close> works on whatever \<open>json.load\<close> returns, so the document is a
  JSON value; an object is the list of its key/value pairs in document order, read with
  \<open>map_of\<close>.
\<close>

datatype json =
    JNull | JBool bool | JNum rat | JStr string
  | JArr "json list" | JObj "(string \<times> json) list"

text \<open>\<open>data.get(key, [])\<close>: only a dictionary has \<open>get\<close>.\<close>

fun dict_get :: "json \<Rightarrow> string \<Rightarrow> py_error + json" where
  "dict_get (JObj kvs) k = Inr (case map_of kvs k of None \<Rightarrow> JArr [] | Some v \<Rightarrow> v)"
| "dict_get _ k = Inl AttributeError"

text \<open>The items a \<open>for\<close> loop runs over: the elements of a list, the keys of a
  dictionary, the characters of a string.\<close>

fun py_iter :: "json \<Rightarrow> py_error + json list" where
  "py_iter (JArr xs) = Inr xs"
| "py_iter (JObj kvs) = Inr (map (\<lambda>kv. JStr (fst kv)) kvs)"
| "py_iter (JStr s) = Inr (map (\<lambda>c. JStr [c]) s)"
| "py_iter _ = Inl TypeError"

text \<open>\<open>'id' in perfume\<close>: a key of a dictionary, an element of a list, a substring of a
  string.\<close>

fun has_id :: "json \<Rightarrow> py_error + bool" where
  "has_id (JObj kvs) = Inr (''id'' \<in> set (map fst kvs))"
| "has_id (JArr xs) = Inr (JStr ''id'' \<in> set xs)"
| "has_id (JStr s) = Inr (str_in ''id'' s)"
| "has_id _ = Inl TypeError"

text \<open>\<open>perfume['id'] = n\<close> for a key not yet present: only a dictionary accepts it.\<close>

fun set_id :: "json \<Rightarrow> int \<Rightarrow> py_error + json" where
  "set_id (JObj kvs) n = Inr (JObj (kvs @ [(''id'', JNum (of_int n))]))"
| "set_id _ n = Inl TypeError"

text \<open>The \<open>enumerate\<close> loop, from index \<open>i\<close> on; it returns the items as it leaves
  them.\<close>

fun assign_ids :: "nat \<Rightarrow> json list \<Rightarrow> py_error + json list" where
  "assign_ids i [] = Inr []"
| "assign_ids i (p # rest) =
     (case has_id p of
        Inl e \<Rightarrow> Inl e
      | Inr present \<Rightarrow>
          (case (if present then Inr p else set_id p (int i + 1)) of
             Inl e \<Rightarrow> Inl e
           | Inr p' \<Rightarrow>
               (case assign_ids (Suc i) rest of
                  Inl e \<Rightarrow> Inl e
                | Inr rest' \<Rightarrow> Inr (p' # rest'))))"

text \<open>The loop on the value of \<open>perfumes\<close>: the dictionaries of a list are updated in
  place; the keys of a dictionary and the characters of a string cannot be, so the value
  is unchanged when the loop gets through.\<close>

definition add_ids :: "json \<Rightarrow> py_error + json" where
  "add_ids value0 =
     (case py_iter value0 of
        Inl e \<Rightarrow> Inl e
      | Inr items \<Rightarrow>
          (case assign_ids 0 items of
             Inl e \<Rightarrow> Inl e
           | Inr items' \<Rightarrow> Inr (case value0 of JArr _ \<Rightarrow> JArr items' | _ \<Rightarrow> value0)))"

text \<open>\<open>len(x)\<close> in the log line.\<close>

fun py_len :: "json \<Rightarrow> py_error + nat" where
  "py_len (JArr xs) = Inr (length xs)"
| "py_len (JObj kvs) = Inr (length kvs)"
| "py_len (JStr s) = Inr (length s)"
| "py_len _ = Inl TypeError"

definition default_perfumes :: json where
  "default_perfumes = JArr
     [JObj [(''id'', JNum 1), (''name'', JStr ''Floral Dream''), (''price'', JNum (4599 / 100)),
            (''category'', JStr ''floral'')],
      JObj [(''id'', JNum 2), (''name'', JStr ''Woody Essence''), (''price'', JNum (5999 / 100)),
            (''category'', JStr ''woody'')],
      JObj [(''id'', JNum 3), (''name'', JStr ''Citrus Splash''), (''price'', JNum (3999 / 100)),
            (''category'', JStr ''citrus'')]]"

text \<open>The body of the \<open>try\<close> block once the document is parsed.\<close>

definition load_document :: "json \<Rightarrow> py_error + json \<times> json \<times> json" where
  "load_document data =
     (case dict_get data ''perfumes'' of
        Inl e \<Rightarrow> Inl e
      | Inr perfumes0 \<Rightarrow>
     (case dict_get data ''faqs'' of
        Inl e \<Rightarrow> Inl e
      | Inr faqs0 \<Rightarrow>
     (case dict_get data ''intents'' of
        Inl e \<Rightarrow> Inl e
      | Inr intents0 \<Rightarrow>
     (case add_ids perfumes0 of
        Inl e \<Rightarrow> Inl e
      | Inr perfumes1 \<Rightarrow>
     (case py_len perfumes1 of
        Inl e \<Rightarrow> Inl e
      | Inr _ \<Rightarrow>
     (case py_len faqs0 of
        Inl e \<Rightarrow> Inl e
      | Inr _ \<Rightarrow>
     (case py_len intents0 of
        Inl e \<Rightarrow> Inl e
      | Inr _ \<Rightarrow> Inr (perfumes1, faqs0, intents0))))))))"

text \<open>
  \<open>load_training_data\<close>. Its argument is the outcome of opening and parsing
  \<open>training_data.json\<close>: the exception raised, or the parsed document. The two
  \<open>except\<close> clauses catch \<open>FileNotFoundError\<close> and \<open>JSONDecodeError\<close>; anything else
  reaches the caller.
\<close>

definition load_training_data :: "py_error + json \<Rightarrow> py_error + json \<times> json \<times> json" where
  "load_training_data source =
     (case source of
        Inr data \<Rightarrow>
          (case load_document data of
             Inl FileNotFoundError \<Rightarrow> Inr (default_perfumes, JArr [], JArr [])
           | Inl JSONDecodeError \<Rightarrow> Inr (JArr [], JArr [], JArr [])
           | r \<Rightarrow> r)
      | Inl FileNotFoundError \<Rightarrow> Inr (default_perfumes, JArr [], JArr [])
      | Inl JSONDecodeError \<Rightarrow> Inr (JArr [], JArr [], JArr [])
      | Inl e \<Rightarrow> Inl e)"

section \<open>Predicates and sample data used in the statements\<close>

text \<open>An intent definition matches a lower-cased message when one of its patterns,
  lower-cased, occurs in it.\<close>

definition intent_hit :: "intent \<Rightarrow> string \<Rightarrow> bool" where
  "intent_hit i msg_lower =
     (\<exists>pattern\<in>set (get_patterns i). str_in (py_lower pattern) msg_lower)"

definition demo_intents :: "intent list" where
  "demo_intents =
     [\<lparr>intent_name = Some ''shipping'', patterns = Some [''Deliver'']\<rparr>,
      \<lparr>intent_name = Some ''welcome'', patterns = Some [''Good Morning'', ''Hello'']\<rparr>,
      \<lparr>intent_name = Some ''salute'', patterns = Some [''hello'']\<rparr>]"

text \<open>The tests of the three phases of the entity matcher, on the lower-cased query.\<close>

definition name_hit :: "perfume \<Rightarrow> string \<Rightarrow> bool" where
  "name_hit p query_lower = str_in (py_lower (get_str (name p))) query_lower"

definition category_hit :: "perfume \<Rightarrow> string \<Rightarrow> bool" where
  "category_hit p query_lower = str_in (py_lower (get_str (category p))) query_lower"

definition note_hit :: "perfume \<Rightarrow> string \<Rightarrow> bool" where
  "note_hit p query_lower = (\<exists>note\<in>set (get_notes p). str_in (py_lower note) query_lower)"

text \<open>A FAQ matches a text when one of the first three whitespace-separated words of its
  lower-cased question occurs in the text.\<close>

definition faq_hit :: "faq \<Rightarrow> string \<Rightarrow> bool" where
  "faq_hit f question_lower =
     (\<exists>word\<in>set (take 3 (py_split (py_lower (get_str (question f))))).
        str_in word question_lower)"

definition rose :: perfume where
  "rose = \<lparr>perfume_id = Some 1, name = Some ''Rose'', price = Some 30,
           category = Some ''floral'', perfume_notes = Some [''Musk''],
           description = None, other_keys = []\<rparr>"

definition floral_dream :: perfume where
  "floral_dream = \<lparr>perfume_id = Some 2, name = Some ''Floral Dream'', price = Some (4599 / 100),
           category = Some ''woody'', perfume_notes = Some [''Jasmine'', ''Cedar''],
           description = Some ''A delicate bouquet'', other_keys = []\<rparr>"

definition citrus_splash :: perfume where
  "citrus_splash = \<lparr>perfume_id = Some 3, name = Some ''Citrus Splash'', price = Some (3999 / 100),
           category = Some ''citrus'', perfume_notes = Some [''Lemon'', ''Musk''],
           description = None, other_keys = []\<rparr>"

definition demo_perfumes :: "perfume list" where
  "demo_perfumes = [rose, floral_dream, citrus_splash]"

definition faq_lasting :: faq where
  "faq_lasting = \<lparr>question = Some ''How long does perfume last?'', answer = Some ''Four to six hours.''\<rparr>"

definition faq_shipping :: faq where
  "faq_shipping = \<lparr>question = Some ''Shipping cost and time'', answer = Some ''Free above fifty.''\<rparr>"

definition faq_abroad :: faq where
  "faq_abroad = \<lparr>question = Some ''What does shipping abroad cost?'', answer = Some ''Ten.''\<rparr>"

definition demo_faqs :: "faq list" where
  "demo_faqs = [faq_lasting, faq_shipping, faq_abroad]"

definition unnamed :: perfume where
  "unnamed = \<lparr>perfume_id = Some 7, name = None, price = Some 20,
           category = Some ''oriental'', perfume_notes = None,
           description = None, other_keys = []\<rparr>"

definition faq_returns :: faq where
  "faq_returns = \<lparr>question = Some ''Returns and refunds'', answer = None\<rparr>"

definition faq_refund :: faq where
  "faq_refund = \<lparr>question = Some ''How do returns work?'', answer = Some ''Within 30 days.''\<rparr>"

definition unanswered_ai :: perfume_ai where
  "unanswered_ai = \<lparr>perfumes = [], faqs = [faq_lasting, faq_returns, faq_refund], intents = []\<rparr>"

definition empty_ai :: perfume_ai where
  "empty_ai = \<lparr>perfumes = [], faqs = [], intents = []\<rparr>"

definition faq_suggest :: faq where
  "faq_suggest = \<lparr>question = Some ''Can you suggest a gift?'', answer = Some ''Try a sample set.''\<rparr>"

text \<open>A product carries the two keys the replies subscript, \<open>name\<close> and \<open>price\<close>.\<close>

definition priced :: "perfume \<Rightarrow> bool" where
  "priced p = (name p \<noteq> None \<and> price p \<noteq> None)"

text \<open>The category branch has something to list: the first word of the category
  vocabulary, in listed order, that occurs in the lower-cased message is the category of
  some product.\<close>

definition category_found :: "perfume_ai \<Rightarrow> string \<Rightarrow> bool" where
  "category_found ai message =
     (case find (\<lambda>cat. str_in cat (py_lower message)) categories of
        None \<Rightarrow> False
      | Some cat \<Rightarrow> (\<exists>p\<in>set (perfumes ai). category p = Some cat))"

definition demo_ai :: perfume_ai where
  "demo_ai = \<lparr>perfumes = demo_perfumes, faqs = demo_faqs, intents = demo_intents\<rparr>"

text \<open>The priority chain of the spec: the type and the confidence of the first step that
  succeeds.\<close>

definition priority_chain :: "perfume_ai \<Rightarrow> string \<Rightarrow> string \<times> rat" where
  "priority_chain ai message =
        (if truthy (answer_faq (faqs ai) message) then (''faq'', 9 / 10)
         else if find_perfume (perfumes ai) message \<noteq> None then (''perfume_info'', 8 / 10)
         else if find_intent (intents ai) message = ''greeting'' then (''greeting'', 9 / 10)
         else if find_intent (intents ai) message = ''recommendation'' \<and> perfumes ai \<noteq> []
           then (''recommendation'', 8 / 10)
         else if find_intent (intents ai) message = ''price_inquiry'' \<and> perfumes ai \<noteq> []
           then (''price_info'', 7 / 10)
         else if find_intent (intents ai) message = ''category_query'' \<and> category_found ai message
           then (''category_info'', 8 / 10)
         else (''fallback'', 3 / 10))"

definition peony :: perfume where
  "peony = \<lparr>perfume_id = Some 4, name = Some ''Peony'', price = Some 35,
           category = Some ''Floral'', perfume_notes = None,
           description = None, other_keys = []\<rparr>"

text \<open>A JSON value is an object; the value of the \<open>id\<close> key of an object, when it has
  one.\<close>

fun is_object :: "json \<Rightarrow> bool" where
  "is_object (JObj kvs) = True"
| "is_object _ = False"

fun obj_id :: "json \<Rightarrow> json option" where
  "obj_id (JObj kvs) = map_of kvs ''id''"
| "obj_id _ = None"

definition sample_document :: json where
  "sample_document = JObj
     [(''perfumes'', JArr
        [JObj [(''name'', JStr ''Floral Dream''), (''category'', JStr ''floral'')],
         JObj [(''id'', JNum 40), (''name'', JStr ''Woody Essence'')],
         JObj [(''name'', JStr ''Citrus Splash'')]]),
      (''faqs'', JArr [JObj [(''question'', JStr ''How long does perfume last?'')]])]"

definition no_id_document :: json where
  "no_id_document = JObj
     [(''perfumes'', JArr
        [JObj [(''name'', JStr ''Floral Dream'')], JObj [(''name'', JStr ''Woody Essence'')]])]"

definition clash_document :: json where
  "clash_document = JObj
     [(''perfumes'', JArr
        [JObj [(''name'', JStr ''Floral Dream'')],
         JObj [(''id'', JNum 1), (''name'', JStr ''Woody Essence'')]])]"



fun items :: "json \<Rightarrow> json list" where
  "items (JArr xs) = xs"
| "items (JObj kvs) = map (\<lambda>kv. JStr (fst kv)) kvs"
| "items (JStr s) = map (\<lambda>c. JStr [c]) s"
| "items _ = []"



section \<open>String primitives: basic facts\<close>

lemma str_in_sublist: "str_in sub s \<longleftrightarrow> sublist sub s"
  by (induction s) (auto simp: sublist_Cons_right)

lemma str_in_iff: "str_in sub s \<longleftrightarrow> (\<exists>before after. s = before @ sub @ after)"
  by (simp add: str_in_sublist sublist_def)

lemma str_in_empty [simp]: "str_in [] s"
  by (simp add: str_in_sublist)

lemma any_in_iff: "any_in ws s \<longleftrightarrow> (\<exists>w\<in>set ws. str_in w s)"
  by (simp add: any_in_def list_ex_iff)

section \<open>Intent classification\<close>

lemma pattern_loop_iff:
  "pattern_loop ps m \<longleftrightarrow> (\<exists>pattern\<in>set ps. str_in (py_lower pattern) m)"
  by (induction ps) auto

lemma intent_loop_skip:
  "\<forall>j\<in>set pre. \<not> intent_hit j m \<Longrightarrow> intent_loop (pre @ rest) m = intent_loop rest m"
  by (induction pre) (auto simp: intent_hit_def pattern_loop_iff)

lemma intent_loop_none:
  "\<forall>j\<in>set is. \<not> intent_hit j m \<Longrightarrow> intent_loop is m = fallback_intent m"
  using intent_loop_skip [of "is" m "[]"] by simp

text \<open>
  C2, as the code has it. The stored pattern is lower-cased before it is looked for in the
  lower-cased message. The first intent definition, in catalog order, with such a pattern
  decides: the classifier returns its name (\<open>unknown\<close> when it has no name key), whatever
  the built-in keywords say. When no intent definition has such a pattern, the built-in
  groups are tried in the order greeting, recommendation, price, category, and the result is
  \<open>unknown\<close> when none occurs.
\<close>

theorem find_intent_first_match:
  "(intents0 = pre @ i # post \<and> (\<forall>j\<in>set pre. \<not> intent_hit j (py_lower message))
      \<and> intent_hit i (py_lower message)
    \<longrightarrow> find_intent intents0 message = get_intent_name i)
   \<and> ((\<forall>j\<in>set intents0. \<not> intent_hit j (py_lower message))
    \<longrightarrow> find_intent intents0 message =
         (let m = py_lower message in
          if str_in ''hi'' m \<or> str_in ''hello'' m \<or> str_in ''hey'' m then ''greeting''
          else if str_in ''recommend'' m \<or> str_in ''suggest'' m then ''recommendation''
          else if str_in ''price'' m \<or> str_in ''how much'' m \<or> str_in ''cost'' m
            then ''price_inquiry''
          else if str_in ''floral'' m \<or> str_in ''woody'' m \<or> str_in ''citrus'' m
                  \<or> str_in ''fresh'' m \<or> str_in ''oriental'' m then ''category_query''
          else ''unknown''))"
proof (intro conjI impI)
  assume h: "intents0 = pre @ i # post \<and> (\<forall>j\<in>set pre. \<not> intent_hit j (py_lower message))
      \<and> intent_hit i (py_lower message)"
  then have "intent_loop intents0 (py_lower message) = intent_loop (i # post) (py_lower message)"
    using intent_loop_skip [of pre "py_lower message" "i # post"] by simp
  also have "\<dots> = get_intent_name i"
    using h by (simp add: intent_hit_def pattern_loop_iff)
  finally show "find_intent intents0 message = get_intent_name i"
    by (simp add: find_intent_def)
next
  assume "\<forall>j\<in>set intents0. \<not> intent_hit j (py_lower message)"
  then have "find_intent intents0 message = fallback_intent (py_lower message)"
    by (simp add: find_intent_def intent_loop_none)
  then show "find_intent intents0 message =
         (let m = py_lower message in
          if str_in ''hi'' m \<or> str_in ''hello'' m \<or> str_in ''hey'' m then ''greeting''
          else if str_in ''recommend'' m \<or> str_in ''suggest'' m then ''recommendation''
          else if str_in ''price'' m \<or> str_in ''how much'' m \<or> str_in ''cost'' m
            then ''price_inquiry''
          else if str_in ''floral'' m \<or> str_in ''woody'' m \<or> str_in ''citrus'' m
                  \<or> str_in ''fresh'' m \<or> str_in ''oriental'' m then ''category_query''
          else ''unknown'')"
    by (simp add: fallback_intent_def any_in_def Let_def)
qed

text \<open>
  The theorem at work. In \<open>demo_intents\<close> the second definition is the first whose pattern
  (\<open>Hello\<close>, lower-cased) occurs in the message: it wins over the third definition and
  over the built-in price keyword \<open>cost\<close>. With only the first definition stored, no
  pattern occurs and the price group of the ladder decides.
\<close>

theorem find_intent_first_match_witness:
  "find_intent demo_intents ''Hello, what does it cost?'' = ''welcome''
   \<and> find_intent (take 1 demo_intents) ''What does it COST?'' = ''price_inquiry''"
proof
  have split: "demo_intents = take 1 demo_intents @ demo_intents ! 1 # drop 2 demo_intents"
    by (simp add: demo_intents_def)
  have miss: "\<forall>j\<in>set (take 1 demo_intents). \<not> intent_hit j (py_lower ''Hello, what does it cost?'')"
    by code_simp
  have hit: "intent_hit (demo_intents ! 1) (py_lower ''Hello, what does it cost?'')"
    by code_simp
  have "find_intent demo_intents ''Hello, what does it cost?'' = get_intent_name (demo_intents ! 1)"
    using find_intent_first_match [of demo_intents "take 1 demo_intents" "demo_intents ! 1"
        "drop 2 demo_intents" "''Hello, what does it cost?''"] split miss hit
    by blast
  also have "\<dots> = ''welcome''"
    by code_simp
  finally show "find_intent demo_intents ''Hello, what does it cost?'' = ''welcome''" .
next
  have miss: "\<forall>j\<in>set (take 1 demo_intents). \<not> intent_hit j (py_lower ''What does it COST?'')"
    by code_simp
  have ladder: "(let m = py_lower ''What does it COST?'' in
          if str_in ''hi'' m \<or> str_in ''hello'' m \<or> str_in ''hey'' m then ''greeting''
          else if str_in ''recommend'' m \<or> str_in ''suggest'' m then ''recommendation''
          else if str_in ''price'' m \<or> str_in ''how much'' m \<or> str_in ''cost'' m
            then ''price_inquiry''
          else if str_in ''floral'' m \<or> str_in ''woody'' m \<or> str_in ''citrus'' m
                  \<or> str_in ''fresh'' m \<or> str_in ''oriental'' m then ''category_query''
          else ''unknown'') = ''price_inquiry''"
    by code_simp
  show "find_intent (take 1 demo_intents) ''What does it COST?'' = ''price_inquiry''"
    using find_intent_first_match [of "take 1 demo_intents" "[]" "hd demo_intents" "[]"
        "''What does it COST?''"] miss ladder
    by presburger
qed

text \<open>
  C2 as the spec words it compares the stored pattern itself with the lower-cased input.
  The pattern \<open>Hello\<close> does not occur in the lower-cased message \<open>hello\<close>, so on that
  reading no stored pattern matches and the ladder would answer \<open>greeting\<close> (its answer
  with no intent stored); the code returns the stored intent's name.
\<close>

theorem find_intent_literal_pattern_counterexample:
  "\<not> str_in ''Hello'' (py_lower ''hello'')
   \<and> find_intent [] ''hello'' = ''greeting''
   \<and> find_intent [\<lparr>intent_name = Some ''welcome'', patterns = Some [''Hello'']\<rparr>] ''hello''
       = ''welcome''"
  by code_simp

section \<open>Entity matching\<close>

lemma name_loop_skip:
  "\<forall>x\<in>set pre. \<not> name_hit x q \<Longrightarrow> name_loop (pre @ rest) q = name_loop rest q"
  by (induction pre) (auto simp: name_hit_def)

lemma name_loop_none: "\<forall>x\<in>set ps. \<not> name_hit x q \<Longrightarrow> name_loop ps q = None"
  using name_loop_skip [of ps q "[]"] by simp

lemma category_loop_skip:
  "\<forall>x\<in>set pre. \<not> category_hit x q \<Longrightarrow> category_loop (pre @ rest) q = category_loop rest q"
  by (induction pre) (auto simp: category_hit_def)

lemma category_loop_none: "\<forall>x\<in>set ps. \<not> category_hit x q \<Longrightarrow> category_loop ps q = None"
  using category_loop_skip [of ps q "[]"] by simp

lemma note_loop_iff: "note_loop ns q \<longleftrightarrow> (\<exists>note\<in>set ns. str_in (py_lower note) q)"
  by (induction ns) auto

lemma notes_loop_skip:
  "\<forall>x\<in>set pre. \<not> note_hit x q \<Longrightarrow> notes_loop (pre @ rest) q = notes_loop rest q"
  by (induction pre) (auto simp: note_hit_def note_loop_iff)

lemma notes_loop_none: "\<forall>x\<in>set ps. \<not> note_hit x q \<Longrightarrow> notes_loop ps q = None"
  using notes_loop_skip [of ps q "[]"] by simp

text \<open>
  C3, as the code has it. The stored field is lower-cased before it is looked for in the
  lower-cased query. Phase (a): the first product in catalog order whose name occurs in the
  query is returned. Phase (b), only when no name occurs: the first product whose category
  occurs. Phase (c), only when no name and no category occurs: the first product one of
  whose notes occurs. Otherwise the result is \<open>None\<close>. A missing name or category counts
  as the empty string.
\<close>

theorem find_perfume_phases:
  "(ps = pre @ p # post \<and> (\<forall>x\<in>set pre. \<not> name_hit x (py_lower query))
      \<and> name_hit p (py_lower query)
    \<longrightarrow> find_perfume ps query = Some p)
   \<and> ((\<forall>x\<in>set ps. \<not> name_hit x (py_lower query))
      \<and> ps = pre @ p # post \<and> (\<forall>x\<in>set pre. \<not> category_hit x (py_lower query))
      \<and> category_hit p (py_lower query)
    \<longrightarrow> find_perfume ps query = Some p)
   \<and> ((\<forall>x\<in>set ps. \<not> name_hit x (py_lower query))
      \<and> (\<forall>x\<in>set ps. \<not> category_hit x (py_lower query))
      \<and> ps = pre @ p # post \<and> (\<forall>x\<in>set pre. \<not> note_hit x (py_lower query))
      \<and> note_hit p (py_lower query)
    \<longrightarrow> find_perfume ps query = Some p)
   \<and> ((\<forall>x\<in>set ps. \<not> name_hit x (py_lower query))
      \<and> (\<forall>x\<in>set ps. \<not> category_hit x (py_lower query))
      \<and> (\<forall>x\<in>set ps. \<not> note_hit x (py_lower query))
    \<longrightarrow> find_perfume ps query = None)"
proof (intro conjI impI)
  assume h: "ps = pre @ p # post \<and> (\<forall>x\<in>set pre. \<not> name_hit x (py_lower query))
      \<and> name_hit p (py_lower query)"
  then have "name_loop ps (py_lower query) = name_loop (p # post) (py_lower query)"
    using name_loop_skip [of pre "py_lower query" "p # post"] by simp
  also have "\<dots> = Some p"
    using h by (simp add: name_hit_def)
  finally show "find_perfume ps query = Some p"
    by (simp add: find_perfume_def)
next
  assume h: "(\<forall>x\<in>set ps. \<not> name_hit x (py_lower query))
      \<and> ps = pre @ p # post \<and> (\<forall>x\<in>set pre. \<not> category_hit x (py_lower query))
      \<and> category_hit p (py_lower query)"
  then have n: "name_loop ps (py_lower query) = None"
    by (simp add: name_loop_none)
  from h have "category_loop ps (py_lower query) = category_loop (p # post) (py_lower query)"
    using category_loop_skip [of pre "py_lower query" "p # post"] by simp
  also have "\<dots> = Some p"
    using h by (simp add: category_hit_def)
  finally show "find_perfume ps query = Some p"
    using n by (simp add: find_perfume_def)
next
  assume h: "(\<forall>x\<in>set ps. \<not> name_hit x (py_lower query))
      \<and> (\<forall>x\<in>set ps. \<not> category_hit x (py_lower query))
      \<and> ps = pre @ p # post \<and> (\<forall>x\<in>set pre. \<not> note_hit x (py_lower query))
      \<and> note_hit p (py_lower query)"
  then have n: "name_loop ps (py_lower query) = None"
    by (simp add: name_loop_none)
  from h have c: "category_loop ps (py_lower query) = None"
    by (simp add: category_loop_none)
  from h have "notes_loop ps (py_lower query) = notes_loop (p # post) (py_lower query)"
    using notes_loop_skip [of pre "py_lower query" "p # post"] by simp
  also have "\<dots> = Some p"
    using h by (simp add: note_hit_def note_loop_iff)
  finally show "find_perfume ps query = Some p"
    using n c by (simp add: find_perfume_def)
next
  assume h: "(\<forall>x\<in>set ps. \<not> name_hit x (py_lower query))
      \<and> (\<forall>x\<in>set ps. \<not> category_hit x (py_lower query))
      \<and> (\<forall>x\<in>set ps. \<not> note_hit x (py_lower query))"
  then show "find_perfume ps query = None"
    by (simp add: find_perfume_def name_loop_none category_loop_none notes_loop_none)
qed

text \<open>
  The four cases on \<open>demo_perfumes\<close>: a name beats the category of an earlier product;
  a category beats the note of an earlier product; a note decides when nothing else does;
  no occurrence gives \<open>None\<close>.
\<close>

theorem find_perfume_phases_witness:
  "find_perfume demo_perfumes ''Something FLORAL, like floral dream'' = Some floral_dream
   \<and> find_perfume demo_perfumes ''something with cedar or citrus'' = Some citrus_splash
   \<and> find_perfume demo_perfumes ''something with MUSK'' = Some rose
   \<and> find_perfume demo_perfumes ''anything'' = None"
proof (intro conjI)
  have "demo_perfumes = [rose] @ floral_dream # [citrus_splash]
      \<and> (\<forall>x\<in>set [rose]. \<not> name_hit x (py_lower ''Something FLORAL, like floral dream''))
      \<and> name_hit floral_dream (py_lower ''Something FLORAL, like floral dream'')"
    by code_simp
  then show "find_perfume demo_perfumes ''Something FLORAL, like floral dream'' = Some floral_dream"
    using find_perfume_phases [of demo_perfumes "[rose]" floral_dream "[citrus_splash]"
        "''Something FLORAL, like floral dream''"]
    by blast
next
  have "(\<forall>x\<in>set demo_perfumes. \<not> name_hit x (py_lower ''something with cedar or citrus''))
      \<and> demo_perfumes = [rose, floral_dream] @ citrus_splash # []
      \<and> (\<forall>x\<in>set [rose, floral_dream]. \<not> category_hit x (py_lower ''something with cedar or citrus''))
      \<and> category_hit citrus_splash (py_lower ''something with cedar or citrus'')"
    by code_simp
  then show "find_perfume demo_perfumes ''something with cedar or citrus'' = Some citrus_splash"
    using find_perfume_phases [of demo_perfumes "[rose, floral_dream]" citrus_splash "[]"
        "''something with cedar or citrus''"]
    by blast
next
  have "(\<forall>x\<in>set demo_perfumes. \<not> name_hit x (py_lower ''something with MUSK''))
      \<and> (\<forall>x\<in>set demo_perfumes. \<not> category_hit x (py_lower ''something with MUSK''))
      \<and> demo_perfumes = [] @ rose # [floral_dream, citrus_splash]
      \<and> (\<forall>x\<in>set []. \<not> note_hit x (py_lower ''something with MUSK''))
      \<and> note_hit rose (py_lower ''something with MUSK'')"
    by code_simp
  then show "find_perfume demo_perfumes ''something with MUSK'' = Some rose"
    using find_perfume_phases [of demo_perfumes "[]" rose "[floral_dream, citrus_splash]"
        "''something with MUSK''"]
    by blast
next
  have "(\<forall>x\<in>set demo_perfumes. \<not> name_hit x (py_lower ''anything''))
      \<and> (\<forall>x\<in>set demo_perfumes. \<not> category_hit x (py_lower ''anything''))
      \<and> (\<forall>x\<in>set demo_perfumes. \<not> note_hit x (py_lower ''anything''))"
    by code_simp
  then show "find_perfume demo_perfumes ''anything'' = None"
    using find_perfume_phases [of demo_perfumes _ _ _ "''anything''"]
    by blast
qed

text \<open>
  C3 as the spec words it looks for the stored name itself in the lower-cased input. Neither
  \<open>Rose\<close> nor \<open>Floral Dream\<close> occurs in \<open>floral dream\<close>, and the category of the
  first product does, so on that reading the category phase would return the first
  product; the code returns the second one, by name.
\<close>

theorem find_perfume_literal_name_counterexample:
  "\<not> str_in (get_str (name rose)) (py_lower ''floral dream'')
   \<and> \<not> str_in (get_str (name floral_dream)) (py_lower ''floral dream'')
   \<and> str_in (get_str (category rose)) (py_lower ''floral dream'')
   \<and> find_perfume [rose, floral_dream] ''floral dream'' = Some floral_dream
   \<and> floral_dream \<noteq> rose"
  by code_simp

section \<open>FAQ matching\<close>

lemma faq_matches_hit: "faq_matches f q \<longleftrightarrow> faq_hit f q"
  by (simp add: faq_matches_def faq_hit_def any_in_iff)

lemma faq_loop_skip:
  "\<forall>g\<in>set pre. \<not> faq_hit g q \<Longrightarrow> faq_loop (pre @ rest) q = faq_loop rest q"
  by (induction pre) (auto simp: faq_matches_hit)

lemma faq_loop_none: "\<forall>g\<in>set fs. \<not> faq_hit g q \<Longrightarrow> faq_loop fs q = None"
  using faq_loop_skip [of fs q "[]"] by simp

lemma faq_loop_first:
  "\<forall>g\<in>set pre. \<not> faq_hit g q \<Longrightarrow> faq_hit f q \<Longrightarrow> faq_loop (pre @ f # post) q = answer f"
  by (simp add: faq_loop_skip faq_matches_hit)

text \<open>
  C4, as the code has it. The user text is lower-cased before the words are looked for.
  The matcher returns \<open>None\<close> when no FAQ has one of the first three words of its
  lower-cased question in the lower-cased text; otherwise it returns the answer entry of
  the first such FAQ in catalog order (\<open>None\<close> when that FAQ has no answer key).
\<close>

theorem answer_faq_first_match:
  "((\<forall>g\<in>set fs. \<not> faq_hit g (py_lower qn)) \<longrightarrow> answer_faq fs qn = None)
   \<and> (fs = pre @ f # post \<and> (\<forall>g\<in>set pre. \<not> faq_hit g (py_lower qn))
        \<and> faq_hit f (py_lower qn)
      \<longrightarrow> answer_faq fs qn = answer f)"
  by (auto simp: answer_faq_def faq_loop_none faq_loop_first)

text \<open>
  On \<open>demo_faqs\<close>: no word occurs in the first text; in the second the second and the
  third FAQ both match and the second one answers.
\<close>

theorem answer_faq_first_match_witness:
  "answer_faq demo_faqs ''Tell me more'' = None
   \<and> answer_faq demo_faqs ''What is the SHIPPING cost?'' = Some ''Free above fifty.''"
proof
  have "\<forall>g\<in>set demo_faqs. \<not> faq_hit g (py_lower ''Tell me more'')"
    by code_simp
  then show "answer_faq demo_faqs ''Tell me more'' = None"
    using answer_faq_first_match [of demo_faqs "''Tell me more''"]
    by blast
next
  have "demo_faqs = [faq_lasting] @ faq_shipping # [faq_abroad]
      \<and> (\<forall>g\<in>set [faq_lasting]. \<not> faq_hit g (py_lower ''What is the SHIPPING cost?''))
      \<and> faq_hit faq_shipping (py_lower ''What is the SHIPPING cost?'')
      \<and> faq_hit faq_abroad (py_lower ''What is the SHIPPING cost?'')"
    by code_simp
  then have "answer_faq demo_faqs ''What is the SHIPPING cost?'' = answer faq_shipping"
    using answer_faq_first_match [of demo_faqs "''What is the SHIPPING cost?''" "[faq_lasting]"
        faq_shipping "[faq_abroad]"]
    by blast
  also have "\<dots> = Some ''Free above fifty.''"
    by code_simp
  finally show "answer_faq demo_faqs ''What is the SHIPPING cost?'' = Some ''Free above fifty.''" .
qed

text \<open>
  C4 as the spec words it looks for the words in the input as typed. None of
  \<open>shipping\<close>, \<open>cost\<close>, \<open>and\<close> occurs in \<open>SHIPPING\<close>, yet the matcher answers.
\<close>

theorem answer_faq_raw_input_counterexample:
  "\<not> faq_hit faq_shipping ''SHIPPING''
   \<and> answer_faq [faq_shipping] ''SHIPPING'' = Some ''Free above fifty.''"
  by code_simp

section \<open>A product without a name\<close>

lemma name_loop_first:
  "\<forall>x\<in>set pre. \<not> name_hit x q \<Longrightarrow> name_hit p q \<Longrightarrow> name_loop (pre @ p # post) q = Some p"
  by (simp add: name_loop_skip) (simp add: name_hit_def)

lemma find_perfume_by_name:
  "\<forall>x\<in>set pre. \<not> name_hit x (py_lower query) \<Longrightarrow> name_hit p (py_lower query)
   \<Longrightarrow> find_perfume (pre @ p # post) query = Some p"
  by (simp add: find_perfume_def name_loop_first)

lemma nameless_hit: "\<not> truthy (name p) \<Longrightarrow> name_hit p q"
  by (cases "name p") (simp_all add: truthy_def name_hit_def get_str_def py_lower_def)

text \<open>
  C10, as the code has it. When some product has no name key or an empty name, every query
  is decided in the name phase: the matcher returns the first product in catalog order
  whose lower-cased name occurs in the lower-cased query, so never \<open>None\<close> and never a
  product found by category or note. That product is the nameless one when no earlier
  product's name occurs in the query.
\<close>

theorem nameless_product_shadows:
  "ps = pre @ p # post \<and> \<not> truthy (name p)
   \<longrightarrow> (\<exists>before r after. ps = before @ r # after
          \<and> (\<forall>x\<in>set before. \<not> name_hit x (py_lower query))
          \<and> name_hit r (py_lower query) \<and> find_perfume ps query = Some r)
       \<and> ((\<forall>x\<in>set pre. \<not> name_hit x (py_lower query)) \<longrightarrow> find_perfume ps query = Some p)"
proof (intro impI conjI)
  assume h: "ps = pre @ p # post \<and> \<not> truthy (name p)"
  then have hit: "name_hit p (py_lower query)"
    by (simp add: nameless_hit)
  with h have "\<exists>x\<in>set ps. name_hit x (py_lower query)"
    by auto
  then have "\<exists>before r after. ps = before @ r # after \<and> name_hit r (py_lower query)
      \<and> (\<forall>x\<in>set before. \<not> name_hit x (py_lower query))"
    by (rule split_list_first_prop)
  then obtain before r after where
    s: "ps = before @ r # after" and r: "name_hit r (py_lower query)"
    and b: "\<forall>x\<in>set before. \<not> name_hit x (py_lower query)"
    by blast
  from b r have "find_perfume (before @ r # after) query = Some r"
    by (rule find_perfume_by_name)
  with s r b show "\<exists>before r after. ps = before @ r # after
          \<and> (\<forall>x\<in>set before. \<not> name_hit x (py_lower query))
          \<and> name_hit r (py_lower query) \<and> find_perfume ps query = Some r"
    by metis
next
  assume h: "ps = pre @ p # post \<and> \<not> truthy (name p)"
    and m: "\<forall>x\<in>set pre. \<not> name_hit x (py_lower query)"
  from h have "name_hit p (py_lower query)"
    by (simp add: nameless_hit)
  with m have "find_perfume (pre @ p # post) query = Some p"
    by (rule find_perfume_by_name)
  with h show "find_perfume ps query = Some p"
    by simp
qed

text \<open>
  The query names the category and a note of the third product; the nameless second
  product is returned.
\<close>

theorem nameless_product_shadows_witness:
  "find_perfume [rose, unnamed, citrus_splash] ''citrus with lemon please'' = Some unnamed"
proof -
  have "[rose, unnamed, citrus_splash] = [rose] @ unnamed # [citrus_splash]
      \<and> \<not> truthy (name unnamed)
      \<and> (\<forall>x\<in>set [rose]. \<not> name_hit x (py_lower ''citrus with lemon please''))"
    by code_simp
  then show ?thesis
    using nameless_product_shadows [of "[rose, unnamed, citrus_splash]" "[rose]" unnamed
        "[citrus_splash]" "''citrus with lemon please''"]
    by blast
qed

text \<open>
  C10 as worded has the first nameless product returned for every query. A product placed
  before it whose name occurs in the query is returned instead.
\<close>

theorem nameless_product_not_first_counterexample:
  "\<not> truthy (name unnamed)
   \<and> find_perfume [rose, unnamed] ''a rose, please'' = Some rose
   \<and> rose \<noteq> unnamed"
  by code_simp

section \<open>The FAQ step of the generator\<close>

lemma intent_step_not_faq: "intent_step ai rnd message = Inr r \<Longrightarrow> rtype r \<noteq> ''faq''"
  by (auto simp: intent_step_def Let_def fallback_response_def
      split: if_splits sum.splits option.splits)

lemma entity_step_not_faq: "entity_step ai rnd message = Inr r \<Longrightarrow> rtype r \<noteq> ''faq''"
  by (auto simp: entity_step_def dest: intent_step_not_faq
      split: if_splits sum.splits option.splits)

lemma generate_response_faq_iff:
  "(\<exists>r. generate_response ai rnd message = Inr r \<and> rtype r = ''faq'')
   \<longleftrightarrow> truthy (answer_faq (faqs ai) message)"
  by (auto simp: generate_response_def Let_def dest: entity_step_not_faq)

lemma generate_response_faq_miss:
  "\<not> truthy (answer_faq (faqs ai) message)
   \<Longrightarrow> generate_response ai rnd message = entity_step ai rnd message"
  by (simp add: generate_response_def Let_def)

lemma answer_faq_first:
  "\<forall>g\<in>set pre. \<not> faq_hit g (py_lower qn) \<Longrightarrow> faq_hit f (py_lower qn)
   \<Longrightarrow> answer_faq (pre @ f # post) qn = answer f"
  by (simp add: answer_faq_def faq_loop_first)

lemma answer_faq_none:
  "\<forall>g\<in>set fs. \<not> faq_hit g (py_lower qn) \<Longrightarrow> answer_faq fs qn = None"
  by (simp add: answer_faq_def faq_loop_none)

text \<open>
  C9. Let \<open>f\<close> be the first FAQ in catalog order one of whose question's first three
  words occurs in the message (both lower-cased). The generator returns a reply of type
  \<open>faq\<close> if and only if \<open>f\<close> has an answer that is present and non-empty. When the
  answer of \<open>f\<close> is missing or empty the generator goes on with the entity matcher and the
  intents, whatever the FAQs after \<open>f\<close> hold. When no FAQ matches there is no reply of
  type \<open>faq\<close> either.
\<close>

theorem faq_response_iff:
  "(faqs ai = pre @ f # post \<and> (\<forall>g\<in>set pre. \<not> faq_hit g (py_lower message))
      \<and> faq_hit f (py_lower message)
    \<longrightarrow> ((\<exists>r. generate_response ai rnd message = Inr r \<and> rtype r = ''faq'')
           \<longleftrightarrow> truthy (answer f))
        \<and> (\<not> truthy (answer f)
           \<longrightarrow> generate_response ai rnd message = entity_step ai rnd message))
   \<and> ((\<forall>g\<in>set (faqs ai). \<not> faq_hit g (py_lower message))
    \<longrightarrow> \<not> (\<exists>r. generate_response ai rnd message = Inr r \<and> rtype r = ''faq'')
        \<and> generate_response ai rnd message = entity_step ai rnd message)"
proof (intro conjI impI)
  assume h: "faqs ai = pre @ f # post \<and> (\<forall>g\<in>set pre. \<not> faq_hit g (py_lower message))
      \<and> faq_hit f (py_lower message)"
  then have a: "answer_faq (faqs ai) message = answer f"
    by (simp add: answer_faq_first)
  then show "(\<exists>r. generate_response ai rnd message = Inr r \<and> rtype r = ''faq'')
           \<longleftrightarrow> truthy (answer f)"
    by (simp add: generate_response_faq_iff)
  assume "\<not> truthy (answer f)"
  with a show "generate_response ai rnd message = entity_step ai rnd message"
    by (simp add: generate_response_faq_miss)
next
  assume "\<forall>g\<in>set (faqs ai). \<not> faq_hit g (py_lower message)"
  then have a: "answer_faq (faqs ai) message = None"
    by (rule answer_faq_none)
  then have n: "\<not> truthy (answer_faq (faqs ai) message)"
    by (simp add: truthy_def)
  then show "\<not> (\<exists>r. generate_response ai rnd message = Inr r \<and> rtype r = ''faq'')"
    by (simp add: generate_response_faq_iff)
  from n show "generate_response ai rnd message = entity_step ai rnd message"
    by (rule generate_response_faq_miss)
qed

text \<open>
  In \<open>unanswered_ai\<close> the first FAQ matching the message has no answer key and the next
  one, which matches too, has a usable answer: the reply is not of type \<open>faq\<close> and the
  generator continues with the entity step. Without the unanswered FAQ the same message
  gets a reply of type \<open>faq\<close>.
\<close>

theorem faq_response_iff_witness:
  "faq_hit faq_refund (py_lower ''Are RETURNS possible?'')
   \<and> truthy (answer faq_refund)
   \<and> \<not> (\<exists>r. generate_response unanswered_ai [] ''Are RETURNS possible?'' = Inr r
            \<and> rtype r = ''faq'')
   \<and> generate_response unanswered_ai [] ''Are RETURNS possible?''
       = entity_step unanswered_ai [] ''Are RETURNS possible?''
   \<and> (\<exists>r. generate_response (unanswered_ai\<lparr>faqs := [faq_lasting, faq_refund]\<rparr>) []
              ''Are RETURNS possible?'' = Inr r \<and> rtype r = ''faq'')"
proof -
  have later: "faq_hit faq_refund (py_lower ''Are RETURNS possible?'') \<and> truthy (answer faq_refund)"
    by code_simp
  have "faqs unanswered_ai = [faq_lasting] @ faq_returns # [faq_refund]
      \<and> (\<forall>g\<in>set [faq_lasting]. \<not> faq_hit g (py_lower ''Are RETURNS possible?''))
      \<and> faq_hit faq_returns (py_lower ''Are RETURNS possible?'')
      \<and> \<not> truthy (answer faq_returns)"
    by code_simp
  then have first: "\<not> (\<exists>r. generate_response unanswered_ai [] ''Are RETURNS possible?'' = Inr r
            \<and> rtype r = ''faq'')
     \<and> generate_response unanswered_ai [] ''Are RETURNS possible?''
       = entity_step unanswered_ai [] ''Are RETURNS possible?''"
    using faq_response_iff [of unanswered_ai "[faq_lasting]" faq_returns "[faq_refund]"
        "''Are RETURNS possible?''" "[]"]
    by blast
  have "faqs (unanswered_ai\<lparr>faqs := [faq_lasting, faq_refund]\<rparr>) = [faq_lasting] @ faq_refund # []
      \<and> (\<forall>g\<in>set [faq_lasting]. \<not> faq_hit g (py_lower ''Are RETURNS possible?''))
      \<and> faq_hit faq_refund (py_lower ''Are RETURNS possible?'')
      \<and> truthy (answer faq_refund)"
    by code_simp
  then have "\<exists>r. generate_response (unanswered_ai\<lparr>faqs := [faq_lasting, faq_refund]\<rparr>) []
              ''Are RETURNS possible?'' = Inr r \<and> rtype r = ''faq''"
    using faq_response_iff [of "unanswered_ai\<lparr>faqs := [faq_lasting, faq_refund]\<rparr>"
        "[faq_lasting]" faq_refund "[]" "''Are RETURNS possible?''" "[]"]
    by blast
  with later first show ?thesis
    by blast
qed

section \<open>The priority chain of the generator\<close>

lemma find_perfume_empty: "find_perfume [] query = None"
  by (simp add: find_perfume_def)

text \<open>
  C7, as the code has it. With an empty product list, a message for which the FAQ step
  gives no answer and which is classified as \<open>recommendation\<close>, \<open>price_inquiry\<close> or
  \<open>category_query\<close> gets the fallback reply: type \<open>fallback\<close>, confidence 0.3, and no
  list of recommended products.
\<close>

theorem empty_catalog_fallback:
  "perfumes ai = [] \<and> \<not> truthy (answer_faq (faqs ai) message)
     \<and> find_intent (intents ai) message \<in> {''recommendation'', ''price_inquiry'', ''category_query''}
   \<longrightarrow> generate_response ai rnd message
         = Inr \<lparr>response_text = FallbackText (draw rnd 3), rtype = ''fallback'',
                confidence = 3 / 10, perfume_entry = None, perfumes_entry = None\<rparr>"
proof
  assume h: "perfumes ai = [] \<and> \<not> truthy (answer_faq (faqs ai) message)
     \<and> find_intent (intents ai) message \<in> {''recommendation'', ''price_inquiry'', ''category_query''}"
  then have "generate_response ai rnd message = entity_step ai rnd message"
    by (simp add: generate_response_faq_miss)
  also have "\<dots> = intent_step ai rnd message"
    using h by (simp add: entity_step_def find_perfume_empty)
  also have "\<dots> = Inr (fallback_response rnd)"
    using h by (auto simp: intent_step_def Let_def split: option.splits)
  finally show "generate_response ai rnd message
         = Inr \<lparr>response_text = FallbackText (draw rnd 3), rtype = ''fallback'',
                confidence = 3 / 10, perfume_entry = None, perfumes_entry = None\<rparr>"
    by (simp add: fallback_response_def)
qed

text \<open>The message \<open>please recommend a scent\<close> against the empty catalog.\<close>

theorem empty_catalog_fallback_witness:
  "generate_response empty_ai [1] ''please recommend a scent''
     = Inr \<lparr>response_text = FallbackText 1, rtype = ''fallback'',
            confidence = 3 / 10, perfume_entry = None, perfumes_entry = None\<rparr>"
proof -
  have "perfumes empty_ai = [] \<and> \<not> truthy (answer_faq (faqs empty_ai) ''please recommend a scent'')
     \<and> find_intent (intents empty_ai) ''please recommend a scent'' = ''recommendation''"
    by code_simp
  moreover have "draw [1] 3 = 1"
    by code_simp
  ultimately show ?thesis
    using empty_catalog_fallback [of empty_ai "''please recommend a scent''" "[1]"]
    by simp
qed

text \<open>
  C7 as worded fails twice. The message \<open>recommend something\<close> is not classified as a
  recommendation: \<open>hi\<close> occurs in \<open>something\<close> and the greeting group is tried
  first, so the empty catalog answers with a greeting of confidence 0.9. And a message
  classified as a recommendation gets a reply of type \<open>faq\<close> when the product list is
  empty and a FAQ matches, the FAQ step coming first.
\<close>

theorem recommend_something_counterexample:
  "find_intent (intents empty_ai) ''recommend something'' = ''greeting''
   \<and> generate_response empty_ai [] ''recommend something''
       = Inr \<lparr>response_text = GreetingText 0, rtype = ''greeting'', confidence = 9 / 10,
              perfume_entry = None, perfumes_entry = None\<rparr>
   \<and> find_intent [] ''suggest a scent'' = ''recommendation''
   \<and> generate_response (empty_ai\<lparr>faqs := [faq_suggest]\<rparr>) [] ''suggest a scent''
       = Inr \<lparr>response_text = FaqText ''Try a sample set.'', rtype = ''faq'', confidence = 9 / 10,
              perfume_entry = None, perfumes_entry = None\<rparr>"
  by code_simp

lemma name_loop_mem: "name_loop ps q = Some p \<Longrightarrow> p \<in> set ps"
  by (induction ps) (auto split: if_splits)

lemma category_loop_mem: "category_loop ps q = Some p \<Longrightarrow> p \<in> set ps"
  by (induction ps) (auto split: if_splits)

lemma notes_loop_mem: "notes_loop ps q = Some p \<Longrightarrow> p \<in> set ps"
  by (induction ps) (auto split: if_splits)

lemma find_perfume_mem: "find_perfume ps query = Some p \<Longrightarrow> p \<in> set ps"
  by (auto simp: find_perfume_def Let_def split: option.splits
      dest: name_loop_mem category_loop_mem notes_loop_mem)

lemma priced_name_and_price: "priced p \<Longrightarrow> \<exists>line. name_and_price p = Inr line"
  by (auto simp: priced_def name_and_price_def)

lemma priced_truthy: "priced p \<Longrightarrow> dict_truthy p"
  by (simp add: priced_def dict_truthy_def)

lemma priced_card: "priced p \<Longrightarrow> \<exists>txt. perfume_card p = Inr txt"
  by (auto simp: perfume_card_def dest: priced_name_and_price)

lemma priced_price_lines: "\<forall>p\<in>set ps. priced p \<Longrightarrow> \<exists>ls. price_lines ps = Inr ls"
  by (induction ps) (auto dest: priced_name_and_price)

lemma priced_recommendation_lines:
  "\<forall>p\<in>set ps. priced p \<Longrightarrow> \<exists>ls. recommendation_lines ps = Inr ls"
  by (induction ps) (auto dest: priced_name_and_price)

lemma draw_less: "0 < n \<Longrightarrow> draw rnd n < n"
  by (simp add: draw_def split: list.splits)

lemma set_butlast_update: "set (butlast (xs[j := last xs])) \<subseteq> set xs"
proof
  fix x assume "x \<in> set (butlast (xs[j := last xs]))"
  then have "x \<in> set (xs[j := last xs])"
    by (rule in_set_butlastD)
  then have "x \<in> insert (last xs) (set xs)"
    using set_update_subset_insert by fastforce
  moreover have "xs \<noteq> []"
    using \<open>x \<in> set (xs[j := last xs])\<close> by auto
  ultimately show "x \<in> set xs"
    by auto
qed

lemma random_sample_subset: "set (random_sample rnd pool k) \<subseteq> set pool"
proof (induction k arbitrary: rnd pool)
  case 0
  show ?case by simp
next
  case (Suc k)
  show ?case
  proof (cases "pool = []")
    case True
    then show ?thesis by simp
  next
    case False
    then have "pool ! draw rnd (length pool) \<in> set pool"
      by (simp add: draw_less)
    moreover have "set (random_sample (tl rnd)
        (butlast (pool[draw rnd (length pool) := last pool])) k) \<subseteq> set pool"
      using Suc.IH set_butlast_update by (rule subset_trans)
    ultimately show ?thesis
      using False by (simp add: Let_def)
  qed
qed

lemma filter_nonempty_iff: "filter P xs \<noteq> [] \<longleftrightarrow> (\<exists>x\<in>set xs. P x)"
  by (simp add: filter_empty_conv)

lemma intent_step_chain:
  assumes pr: "\<forall>p\<in>set (perfumes ai). priced p"
  shows "\<exists>r. intent_step ai rnd message = Inr r
     \<and> (rtype r, confidence r) =
        (if find_intent (intents ai) message = ''greeting'' then (''greeting'', 9 / 10)
         else if find_intent (intents ai) message = ''recommendation'' \<and> perfumes ai \<noteq> []
           then (''recommendation'', 8 / 10)
         else if find_intent (intents ai) message = ''price_inquiry'' \<and> perfumes ai \<noteq> []
           then (''price_info'', 7 / 10)
         else if find_intent (intents ai) message = ''category_query'' \<and> category_found ai message
           then (''category_info'', 8 / 10)
         else (''fallback'', 3 / 10))"
proof -
  consider (greeting) "find_intent (intents ai) message = ''greeting''"
    | (recommendation) "find_intent (intents ai) message = ''recommendation''"
    | (price) "find_intent (intents ai) message = ''price_inquiry''"
    | (category) "find_intent (intents ai) message = ''category_query''"
    | (other) "find_intent (intents ai) message \<notin>
         {''greeting'', ''recommendation'', ''price_inquiry'', ''category_query''}"
    by blast
  then show ?thesis
  proof cases
    case greeting
    then show ?thesis
      by (simp add: intent_step_def)
  next
    case recommendation
    have "\<forall>p\<in>set (random_sample rnd (perfumes ai) (min 3 (length (perfumes ai)))). priced p"
      using pr random_sample_subset [of rnd "perfumes ai" "min 3 (length (perfumes ai))"] by auto
    then obtain ls where
      "recommendation_lines (random_sample rnd (perfumes ai) (min 3 (length (perfumes ai)))) = Inr ls"
      using priced_recommendation_lines by blast
    with recommendation show ?thesis
      by (simp add: intent_step_def Let_def fallback_response_def)
  next
    case price
    have "\<forall>p\<in>set (take 5 (perfumes ai)). priced p"
      using pr by (auto dest: in_set_takeD)
    then obtain ls where "price_lines (take 5 (perfumes ai)) = Inr ls"
      using priced_price_lines by blast
    with price show ?thesis
      by (simp add: intent_step_def Let_def fallback_response_def)
  next
    case category
    show ?thesis
    proof (cases "find (\<lambda>cat. str_in cat (py_lower message)) categories")
      case None
      with category show ?thesis
        by (simp add: intent_step_def Let_def fallback_response_def category_found_def)
    next
      case (Some cat)
      have "\<forall>p\<in>set (filter (\<lambda>p. category p = Some cat) (perfumes ai)). priced p"
        using pr by simp
      then obtain ls where "price_lines (filter (\<lambda>p. category p = Some cat) (perfumes ai)) = Inr ls"
        using priced_price_lines by blast
      with category Some show ?thesis
        by (simp add: intent_step_def Let_def fallback_response_def category_found_def
            filter_nonempty_iff)
    qed
  next
    case other
    then show ?thesis
      by (simp add: intent_step_def Let_def fallback_response_def)
  qed
qed

lemma generate_response_cases:
  assumes "\<forall>p\<in>set (perfumes ai). name p \<noteq> None \<and> price p \<noteq> None"
  shows "\<exists>r. generate_response ai rnd message = Inr r
     \<and> (rtype r, confidence r) =
        (if truthy (answer_faq (faqs ai) message) then (''faq'', 9 / 10)
         else if find_perfume (perfumes ai) message \<noteq> None then (''perfume_info'', 8 / 10)
         else if find_intent (intents ai) message = ''greeting'' then (''greeting'', 9 / 10)
         else if find_intent (intents ai) message = ''recommendation'' \<and> perfumes ai \<noteq> []
           then (''recommendation'', 8 / 10)
         else if find_intent (intents ai) message = ''price_inquiry'' \<and> perfumes ai \<noteq> []
           then (''price_info'', 7 / 10)
         else if find_intent (intents ai) message = ''category_query'' \<and> category_found ai message
           then (''category_info'', 8 / 10)
         else (''fallback'', 3 / 10))"
proof -
  from assms have pr: "\<forall>p\<in>set (perfumes ai). priced p"
    by (simp add: priced_def)
  show ?thesis
  proof (cases "truthy (answer_faq (faqs ai) message)")
    case True
    then show ?thesis
      by (simp add: generate_response_def Let_def)
  next
    case False
    then have g: "generate_response ai rnd message = entity_step ai rnd message"
      by (rule generate_response_faq_miss)
    show ?thesis
    proof (cases "find_perfume (perfumes ai) message")
      case None
      then have e: "entity_step ai rnd message = intent_step ai rnd message"
        by (simp add: entity_step_def)
      obtain r where r: "intent_step ai rnd message = Inr r"
        and t: "(rtype r, confidence r) =
        (if find_intent (intents ai) message = ''greeting'' then (''greeting'', 9 / 10)
         else if find_intent (intents ai) message = ''recommendation'' \<and> perfumes ai \<noteq> []
           then (''recommendation'', 8 / 10)
         else if find_intent (intents ai) message = ''price_inquiry'' \<and> perfumes ai \<noteq> []
           then (''price_info'', 7 / 10)
         else if find_intent (intents ai) message = ''category_query'' \<and> category_found ai message
           then (''category_info'', 8 / 10)
         else (''fallback'', 3 / 10))"
        using intent_step_chain [OF pr, of rnd message] by blast
      have "generate_response ai rnd message = Inr r"
        using g e r by simp
      moreover have "(rtype r, confidence r) =
        (if truthy (answer_faq (faqs ai) message) then (''faq'', 9 / 10)
         else if find_perfume (perfumes ai) message \<noteq> None then (''perfume_info'', 8 / 10)
         else if find_intent (intents ai) message = ''greeting'' then (''greeting'', 9 / 10)
         else if find_intent (intents ai) message = ''recommendation'' \<and> perfumes ai \<noteq> []
           then (''recommendation'', 8 / 10)
         else if find_intent (intents ai) message = ''price_inquiry'' \<and> perfumes ai \<noteq> []
           then (''price_info'', 7 / 10)
         else if find_intent (intents ai) message = ''category_query'' \<and> category_found ai message
           then (''category_info'', 8 / 10)
         else (''fallback'', 3 / 10))"
        using False None t by (simp only: if_False not_None_eq option.distinct simp_thms)
      ultimately show ?thesis
        by blast
    next
      case (Some p)
      then have "priced p"
        using pr find_perfume_mem by blast
      then obtain shown where "dict_truthy p" "perfume_card p = Inr shown"
        using priced_truthy priced_card by blast
      then have "entity_step ai rnd message =
          Inr \<lparr>response_text = shown, rtype = ''perfume_info'', confidence = 8 / 10,
               perfume_entry = Some p, perfumes_entry = None\<rparr>"
        using Some by (simp add: entity_step_def)
      with g False Some show ?thesis
        by simp
    qed
  qed
qed

text \<open>
  C1. For a catalog whose products all carry a name and a price, the generator returns a
  reply for every message and every state of the random source, and the type and the
  confidence of the reply are those of the first step of the chain that succeeds: the FAQ
  matcher gives a non-empty answer (\<open>faq\<close>, 0.9); else the entity matcher finds a
  product (\<open>perfume_info\<close>, 0.8); else the intent is \<open>greeting\<close> (0.9),
  \<open>recommendation\<close> with products to sample (0.8), \<open>price_inquiry\<close> with products to
  list (\<open>price_info\<close>, 0.7), \<open>category_query\<close> with a product of the mentioned
  category (\<open>category_info\<close>, 0.8); else \<open>fallback\<close>, 0.3.
\<close>

theorem generate_response_chain:
  assumes "\<forall>p\<in>set (perfumes ai). name p \<noteq> None \<and> price p \<noteq> None"
  shows "\<exists>r. generate_response ai rnd message = Inr r
     \<and> (rtype r, confidence r) = priority_chain ai message"
  unfolding priority_chain_def using assms by (rule generate_response_cases)

text \<open>Six messages against \<open>demo_ai\<close>, one for each confidence that can be observed
  there.\<close>

theorem generate_response_chain_witness:
  "(\<exists>r. generate_response demo_ai [2, 0, 1] ''How long does it last'' = Inr r
        \<and> (rtype r, confidence r) = (''faq'', 9 / 10))
   \<and> (\<exists>r. generate_response demo_ai [2, 0, 1] ''tell me about rose'' = Inr r
        \<and> (rtype r, confidence r) = (''perfume_info'', 8 / 10))
   \<and> (\<exists>r. generate_response demo_ai [2, 0, 1] ''hey there'' = Inr r
        \<and> (rtype r, confidence r) = (''greeting'', 9 / 10))
   \<and> (\<exists>r. generate_response demo_ai [2, 0, 1] ''please recommend one'' = Inr r
        \<and> (rtype r, confidence r) = (''recommendation'', 8 / 10))
   \<and> (\<exists>r. generate_response demo_ai [2, 0, 1] ''price list'' = Inr r
        \<and> (rtype r, confidence r) = (''price_info'', 7 / 10))
   \<and> (\<exists>r. generate_response demo_ai [2, 0, 1] ''xyz'' = Inr r
        \<and> (rtype r, confidence r) = (''fallback'', 3 / 10))"
proof (intro conjI)
  have h: "\<forall>p\<in>set (perfumes demo_ai). name p \<noteq> None \<and> price p \<noteq> None"
    by code_simp
  have "priority_chain demo_ai ''How long does it last'' = (''faq'', 9 / 10)"
    by code_simp
  then show "\<exists>r. generate_response demo_ai [2, 0, 1] ''How long does it last'' = Inr r
        \<and> (rtype r, confidence r) = (''faq'', 9 / 10)"
    using generate_response_chain [OF h, of "[2, 0, 1]" "''How long does it last''"] by simp
  have "priority_chain demo_ai ''tell me about rose'' = (''perfume_info'', 8 / 10)"
    by code_simp
  then show "\<exists>r. generate_response demo_ai [2, 0, 1] ''tell me about rose'' = Inr r
        \<and> (rtype r, confidence r) = (''perfume_info'', 8 / 10)"
    using generate_response_chain [OF h, of "[2, 0, 1]" "''tell me about rose''"] by simp
  have "priority_chain demo_ai ''hey there'' = (''greeting'', 9 / 10)"
    by code_simp
  then show "\<exists>r. generate_response demo_ai [2, 0, 1] ''hey there'' = Inr r
        \<and> (rtype r, confidence r) = (''greeting'', 9 / 10)"
    using generate_response_chain [OF h, of "[2, 0, 1]" "''hey there''"] by simp
  have "priority_chain demo_ai ''please recommend one'' = (''recommendation'', 8 / 10)"
    by code_simp
  then show "\<exists>r. generate_response demo_ai [2, 0, 1] ''please recommend one'' = Inr r
        \<and> (rtype r, confidence r) = (''recommendation'', 8 / 10)"
    using generate_response_chain [OF h, of "[2, 0, 1]" "''please recommend one''"] by simp
  have "priority_chain demo_ai ''price list'' = (''price_info'', 7 / 10)"
    by code_simp
  then show "\<exists>r. generate_response demo_ai [2, 0, 1] ''price list'' = Inr r
        \<and> (rtype r, confidence r) = (''price_info'', 7 / 10)"
    using generate_response_chain [OF h, of "[2, 0, 1]" "''price list''"] by simp
  have "priority_chain demo_ai ''xyz'' = (''fallback'', 3 / 10)"
    by code_simp
  then show "\<exists>r. generate_response demo_ai [2, 0, 1] ''xyz'' = Inr r
        \<and> (rtype r, confidence r) = (''fallback'', 3 / 10)"
    using generate_response_chain [OF h, of "[2, 0, 1]" "''xyz''"] by simp
qed

section \<open>The categories endpoint on mixed-case categories\<close>

lemma list_of_pair:
  assumes "a \<noteq> b"
  shows "list_of_set {a, b} cs \<longleftrightarrow> cs = [a, b] \<or> cs = [b, a]"
proof
  assume h: "list_of_set {a, b} cs"
  then have d: "distinct cs" and s: "set cs = {a, b}"
    by (simp_all add: list_of_set_def)
  from d s assms have "length cs = 2"
    using distinct_card [of cs] by simp
  then obtain x y where c: "cs = [x, y]"
    by (auto simp: length_Suc_conv numeral_2_eq_2)
  with s have "{x, y} = {a, b}"
    by simp
  then have "x = a \<and> y = b \<or> x = b \<and> y = a"
    by (simp add: doubleton_eq_iff)
  with c show "cs = [a, b] \<or> cs = [b, a]"
    by blast
next
  assume "cs = [a, b] \<or> cs = [b, a]"
  with assms show "list_of_set {a, b} cs"
    by (auto simp: list_of_set_def)
qed

lemma titled_nonempty: "\<forall>c\<in>set cs. c \<noteq> [] \<Longrightarrow> titled cs = map py_title cs"
  by (simp add: titled_def filter_id_conv)

lemma category_values_nonempty: "c \<in> set (category_values ps) \<Longrightarrow> c \<noteq> []"
  by (auto simp: category_values_def truthy_def get_str_def split: option.splits)

lemma get_categories_raw_dedup:
  assumes "get_categories ps out"
  shows "set out = py_title ` set (category_values ps)"
    and "distinct out \<longleftrightarrow> inj_on py_title (set (category_values ps))"
proof -
  from assms obtain cs where d: "distinct cs" and s: "set cs = set (category_values ps)"
    and o: "out = titled cs"
    by (auto simp: get_categories_def list_of_set_def)
  from s have "\<forall>c\<in>set cs. c \<noteq> []"
    using category_values_nonempty by blast
  then have m: "out = map py_title cs"
    using o by (simp add: titled_nonempty)
  from m s show "set out = py_title ` set (category_values ps)"
    by simp
  from m d s show "distinct out \<longleftrightarrow> inj_on py_title (set (category_values ps))"
    by (simp add: distinct_map)
qed

text \<open>
  C5 at the catalog whose two products have the categories \<open>floral\<close> and \<open>Floral\<close>.
  Duplicates are removed from the stored strings, before the title-casing: the set holds
  both spellings, and whatever order the set is listed in, the endpoint returns
  \<open>Floral\<close> twice. (\<open>get_categories_raw_dedup\<close>: in general the returned list is
  free of duplicates exactly when no two distinct stored categories have the same
  title-cased form.)
\<close>

theorem get_categories_mixed_case:
  "get_categories [rose, peony] out \<longleftrightarrow> out = [''Floral'', ''Floral'']"
proof -
  have v: "set (category_values [rose, peony]) = {''floral'', ''Floral''}"
    by code_simp
  have ne: "''floral'' \<noteq> ''Floral''"
    by simp
  have t1: "titled [''floral'', ''Floral''] = [''Floral'', ''Floral'']"
    by code_simp
  have t2: "titled [''Floral'', ''floral''] = [''Floral'', ''Floral'']"
    by code_simp
  show ?thesis
    unfolding get_categories_def v list_of_pair [OF ne]
    using t1 t2 by auto
qed

section \<open>Catalog loading: identifiers and failures\<close>

lemma has_id_object: "is_object p \<Longrightarrow> has_id p = Inr (obj_id p \<noteq> None)"
  by (cases p) (auto simp: map_of_eq_None_iff)

lemma set_id_object:
  "is_object p \<Longrightarrow> obj_id p = None
   \<Longrightarrow> \<exists>p'. set_id p n = Inr p' \<and> is_object p' \<and> obj_id p' = Some (JNum (of_int n))"
  by (cases p) (auto simp: map_add_Some_iff)

lemma assign_ids_objects:
  "\<forall>p\<in>set ps. is_object p
   \<Longrightarrow> \<exists>ps'. assign_ids i ps = Inr ps' \<and> length ps' = length ps
         \<and> (\<forall>k<length ps. obj_id (ps' ! k) \<noteq> None
               \<and> (obj_id (ps ! k) \<noteq> None \<longrightarrow> ps' ! k = ps ! k)
               \<and> (obj_id (ps ! k) = None \<longrightarrow> obj_id (ps' ! k) = Some (JNum (of_nat (i + k) + 1))))"
proof (induction ps arbitrary: i)
  case Nil
  show ?case by simp
next
  case (Cons p ps)
  then have o: "is_object p" and rest: "\<forall>q\<in>set ps. is_object q"
    by simp_all
  from Cons.IH [OF rest, of "Suc i"] obtain ps' where
    a: "assign_ids (Suc i) ps = Inr ps'" and l: "length ps' = length ps"
    and n: "\<forall>k<length ps. obj_id (ps' ! k) \<noteq> None
               \<and> (obj_id (ps ! k) \<noteq> None \<longrightarrow> ps' ! k = ps ! k)
               \<and> (obj_id (ps ! k) = None \<longrightarrow> obj_id (ps' ! k) = Some (JNum (of_nat (Suc i + k) + 1)))"
    by blast
  show ?case
  proof (cases "obj_id p = None")
    case True
    then obtain p' where s: "set_id p (int i + 1) = Inr p'"
      and i: "obj_id p' = Some (JNum (of_int (int i + 1)))"
      using set_id_object [OF o] by blast
    have "assign_ids i (p # ps) = Inr (p' # ps')"
      using o True s a by (simp add: has_id_object)
    moreover have "\<forall>k<length (p # ps). obj_id ((p' # ps') ! k) \<noteq> None
               \<and> (obj_id ((p # ps) ! k) \<noteq> None \<longrightarrow> (p' # ps') ! k = (p # ps) ! k)
               \<and> (obj_id ((p # ps) ! k) = None
                    \<longrightarrow> obj_id ((p' # ps') ! k) = Some (JNum (of_nat (i + k) + 1)))"
      using True i n by (auto simp: nth_Cons split: nat.splits)
    ultimately show ?thesis
      using l by simp
  next
    case False
    have "assign_ids i (p # ps) = Inr (p # ps')"
      using o False a by (simp add: has_id_object)
    moreover have "\<forall>k<length (p # ps). obj_id ((p # ps') ! k) \<noteq> None
               \<and> (obj_id ((p # ps) ! k) \<noteq> None \<longrightarrow> (p # ps') ! k = (p # ps) ! k)
               \<and> (obj_id ((p # ps) ! k) = None
                    \<longrightarrow> obj_id ((p # ps') ! k) = Some (JNum (of_nat (i + k) + 1)))"
      using False n by (auto simp: nth_Cons split: nat.splits)
    ultimately show ?thesis
      using l by simp
  qed
qed

lemma dict_get_error: "dict_get d k = Inl e \<Longrightarrow> e = AttributeError"
  by (cases d) auto

lemma py_iter_error: "py_iter v = Inl e \<Longrightarrow> e = TypeError"
  by (cases v) auto

lemma has_id_error: "has_id p = Inl e \<Longrightarrow> e = TypeError"
  by (cases p) auto

lemma set_id_error: "set_id p n = Inl e \<Longrightarrow> e = TypeError"
  by (cases p) auto

lemma py_len_error: "py_len v = Inl e \<Longrightarrow> e = TypeError"
  by (cases v) auto

lemma assign_ids_error: "assign_ids i ps = Inl e \<Longrightarrow> e = TypeError"
  by (induction ps arbitrary: i)
     (auto split: sum.splits if_splits dest: has_id_error set_id_error)

lemma add_ids_error: "add_ids v = Inl e \<Longrightarrow> e = TypeError"
  by (auto simp: add_ids_def split: sum.splits dest: py_iter_error assign_ids_error)

lemma load_document_error:
  "load_document data = Inl e \<Longrightarrow> e = AttributeError \<or> e = TypeError"
  by (auto simp: load_document_def split: sum.splits
      dest: dict_get_error add_ids_error py_len_error)

lemma load_parsed: "load_training_data (Inr data) = load_document data"
proof (cases "load_document data")
  case (Inl e)
  then have "e = AttributeError \<or> e = TypeError"
    by (rule load_document_error)
  with Inl show ?thesis
    by (auto simp: load_training_data_def)
next
  case (Inr r)
  then show ?thesis
    by (simp add: load_training_data_def)
qed

lemma add_ids_list:
  "add_ids (JArr ps) = (case assign_ids 0 ps of Inl e \<Rightarrow> Inl e | Inr ps' \<Rightarrow> Inr (JArr ps'))"
  by (simp add: add_ids_def split: sum.splits)

lemma load_document_list:
  assumes "dict_get data ''perfumes'' = Inr (JArr ps)"
    and "load_document data = Inr (loaded, fs, ins)"
  shows "\<exists>ps'. assign_ids 0 ps = Inr ps' \<and> loaded = JArr ps'"
  using assms by (auto simp: load_document_def add_ids_list split: sum.splits)


lemma distinct_positions:
  "distinct (map (\<lambda>k. Some (JNum (of_nat k + 1))) [0..<n])"
  by (simp add: distinct_map inj_on_def)

text \<open>
  C6, as the code has it. When the \<open>perfumes\<close> entry of the document is a list of
  objects and loading succeeds, the loaded product list has the same length, every product
  has an \<open>id\<close> key, a product that had one is unchanged, and a product that had none
  gets its position in the list counted from 1. When no product of the source has an
  \<open>id\<close> key the identifiers are 1, 2, ..., n in source order, hence pairwise different.
\<close>

theorem load_assigns_positions:
  "dict_get data ''perfumes'' = Inr (JArr ps) \<and> (\<forall>p\<in>set ps. is_object p)
     \<and> load_training_data (Inr data) = Inr (loaded, fs, ins)
   \<longrightarrow> (\<exists>ps'. loaded = JArr ps' \<and> length ps' = length ps
         \<and> (\<forall>k<length ps. obj_id (ps' ! k) \<noteq> None
               \<and> (obj_id (ps ! k) \<noteq> None \<longrightarrow> ps' ! k = ps ! k)
               \<and> (obj_id (ps ! k) = None \<longrightarrow> obj_id (ps' ! k) = Some (JNum (of_nat k + 1))))
         \<and> ((\<forall>p\<in>set ps. obj_id p = None)
              \<longrightarrow> map obj_id ps' = map (\<lambda>k. Some (JNum (of_nat k + 1))) [0..<length ps]
                  \<and> distinct (map obj_id ps')))"
proof
  assume h: "dict_get data ''perfumes'' = Inr (JArr ps) \<and> (\<forall>p\<in>set ps. is_object p)
     \<and> load_training_data (Inr data) = Inr (loaded, fs, ins)"
  then have "load_document data = Inr (loaded, fs, ins)"
    by (simp add: load_parsed)
  with h obtain ps' where a: "assign_ids 0 ps = Inr ps'" and l: "loaded = JArr ps'"
    using load_document_list by blast
  from h have "\<forall>p\<in>set ps. is_object p"
    by simp
  from assign_ids_objects [OF this, of 0] a
  have n: "length ps' = length ps"
    and k: "\<forall>k<length ps. obj_id (ps' ! k) \<noteq> None
               \<and> (obj_id (ps ! k) \<noteq> None \<longrightarrow> ps' ! k = ps ! k)
               \<and> (obj_id (ps ! k) = None \<longrightarrow> obj_id (ps' ! k) = Some (JNum (of_nat k + 1)))"
    by auto
  have "map obj_id ps' = map (\<lambda>k. Some (JNum (of_nat k + 1))) [0..<length ps]
         \<and> distinct (map obj_id ps')"
    if none: "\<forall>p\<in>set ps. obj_id p = None"
  proof -
    have "map obj_id ps' = map (\<lambda>k. Some (JNum (of_nat k + 1))) [0..<length ps]"
    proof (rule nth_equalityI)
      show "length (map obj_id ps') = length (map (\<lambda>k. Some (JNum (of_nat k + 1))) [0..<length ps])"
        using n by simp
      fix j assume "j < length (map obj_id ps')"
      then have j: "j < length ps"
        using n by simp
      then have "obj_id (ps ! j) = None"
        using none by simp
      with k j have "obj_id (ps' ! j) = Some (JNum (of_nat j + 1))"
        by blast
      with j n show "map obj_id ps' ! j = map (\<lambda>k. Some (JNum (of_nat k + 1))) [0..<length ps] ! j"
        by simp
    qed
    then show ?thesis
      by (simp only: distinct_positions simp_thms)
  qed
  with l n k show "\<exists>ps'. loaded = JArr ps' \<and> length ps' = length ps
         \<and> (\<forall>k<length ps. obj_id (ps' ! k) \<noteq> None
               \<and> (obj_id (ps ! k) \<noteq> None \<longrightarrow> ps' ! k = ps ! k)
               \<and> (obj_id (ps ! k) = None \<longrightarrow> obj_id (ps' ! k) = Some (JNum (of_nat k + 1))))
         \<and> ((\<forall>p\<in>set ps. obj_id p = None)
              \<longrightarrow> map obj_id ps' = map (\<lambda>k. Some (JNum (of_nat k + 1))) [0..<length ps]
                  \<and> distinct (map obj_id ps'))"
    by blast
qed

text \<open>Loading \<open>no_id_document\<close>, whose two products have no identifier.\<close>

theorem load_assigns_positions_witness:
  "\<exists>ps'. load_training_data (Inr no_id_document) = Inr (JArr ps', JArr [], JArr [])
     \<and> length ps' = 2
     \<and> map obj_id ps' = [Some (JNum 1), Some (JNum 2)]
     \<and> distinct (map obj_id ps')"
proof -
  define ps where "ps = [JObj [(''name'', JStr ''Floral Dream'')], JObj [(''name'', JStr ''Woody Essence'')]]"
  define loaded where "loaded = JArr [JObj [(''name'', JStr ''Floral Dream''), (''id'', JNum 1)],
        JObj [(''name'', JStr ''Woody Essence''), (''id'', JNum 2)]]"
  have g: "dict_get no_id_document ''perfumes'' = Inr (JArr ps)"
    unfolding ps_def by code_simp
  have o: "\<forall>p\<in>set ps. is_object p"
    unfolding ps_def by simp
  have n: "\<forall>p\<in>set ps. obj_id p = None"
    unfolding ps_def by simp
  have l: "load_training_data (Inr no_id_document) = Inr (loaded, JArr [], JArr [])"
    unfolding loaded_def by code_simp
  have len: "length ps = 2"
    unfolding ps_def by simp
  have u: "map (\<lambda>k. Some (JNum (of_nat k + 1))) [0..<2] = [Some (JNum 1), Some (JNum 2)]"
    by (simp add: upt_rec)
  from load_assigns_positions [of no_id_document ps loaded "JArr []" "JArr []"] g o n l
  obtain ps' where "loaded = JArr ps'" "length ps' = length ps"
    "map obj_id ps' = map (\<lambda>k. Some (JNum (of_nat k + 1))) [0..<length ps]"
    "distinct (map obj_id ps')"
    by blast
  with l len u show ?thesis
    by auto
qed

text \<open>
  C6 as worded fails. In \<open>clash_document\<close> the first product has no identifier and the
  second has the identifier 1: after loading both have 1. In \<open>sample_document\<close> the
  first and the third product have no identifier and get 1 and 3, their positions, not 1
  and 2.
\<close>

theorem load_duplicate_id_counterexample:
  "load_training_data (Inr clash_document)
     = Inr (JArr [JObj [(''name'', JStr ''Floral Dream''), (''id'', JNum 1)],
                  JObj [(''id'', JNum 1), (''name'', JStr ''Woody Essence'')]],
            JArr [], JArr [])
   \<and> load_training_data (Inr sample_document)
     = Inr (JArr [JObj [(''name'', JStr ''Floral Dream''), (''category'', JStr ''floral''),
                        (''id'', JNum 1)],
                  JObj [(''id'', JNum 40), (''name'', JStr ''Woody Essence'')],
                  JObj [(''name'', JStr ''Citrus Splash''), (''id'', JNum 3)]],
            JArr [JObj [(''question'', JStr ''How long does perfume last?'')]], JArr [])"
  by code_simp




















end
